theory Spec2Isabelle
  imports Main "HOL-Library.Word"
begin

section \<open>ALERT.c: the alert manager\<close>

subsection \<open>Alert levels and codes\<close>

text \<open>
  \<^verbatim>\<open>alert_level_t\<close> and \<^verbatim>\<open>alert_code_t\<close> are C enums. A C enum object holds
  an integer, and the public interface accepts any value of the underlying integer
  type, not only the named enumerators. Both types are therefore modelled by the
  integer value they hold, and the enumerators are the named constants below. The
  comparison \<^verbatim>\<open>level >= current_level\<close> of the source compares these values.
\<close>

type_synonym alert_level_t = int
type_synonym alert_code_t = int

definition ALERT_INFO :: alert_level_t where "ALERT_INFO = 0"
definition ALERT_WARNING :: alert_level_t where "ALERT_WARNING = 1"
definition ALERT_CRITICAL :: alert_level_t where "ALERT_CRITICAL = 2"

definition ALERT_NONE :: alert_code_t where "ALERT_NONE = 0"
definition ALERT_SENSOR_FAIL :: alert_code_t where "ALERT_SENSOR_FAIL = 1"
definition ALERT_OVER_TEMPERATURE :: alert_code_t where "ALERT_OVER_TEMPERATURE = 2"
definition ALERT_OVER_PRESSURE :: alert_code_t where "ALERT_OVER_PRESSURE = 3"
definition ALERT_ENGINE_FAULT :: alert_code_t where "ALERT_ENGINE_FAULT = 4"
definition ALERT_COMMUNICATION_LOSS :: alert_code_t where "ALERT_COMMUNICATION_LOSS = 5"

subsection \<open>Alert state and hardware hooks\<close>

text \<open>
  One invocation of a hook of the platform layer, with its arguments. The sequence
  of these invocations is what the module does to the outside world.
\<close>

datatype alert_hook_call =
    Hw_led_info bool
  | Hw_led_warning bool
  | Hw_led_critical bool
  | Telemetry_send_alert alert_level_t alert_code_t

text \<open>
  The two static variables of the module, together with the platform they drive:
  the three indicators and the record of every hook invocation so far.
\<close>

record alert_state =
  current_level :: alert_level_t
  current_code :: alert_code_t
  led_info :: bool
  led_warning :: bool
  led_critical :: bool
  alert_calls :: "alert_hook_call list"

text \<open>
  Modelled from the spec: the hooks \<^verbatim>\<open>hw_led_info\<close>, \<^verbatim>\<open>hw_led_warning\<close>,
  \<^verbatim>\<open>hw_led_critical\<close> and \<^verbatim>\<open>telemetry_send_alert\<close> are declared in ALERT.c and
  implemented by the platform layer. Each LED hook "drives a single indicator, has no
  return value and must not fail observably": the indicator takes the value it is
  driven to. \<^verbatim>\<open>telemetry_send_alert\<close> is a fire-and-forget notification. Every
  invocation is recorded.
\<close>

definition hw_led_info :: "bool \<Rightarrow> alert_state \<Rightarrow> alert_state" where
  "hw_led_info on s = s\<lparr>led_info := on, alert_calls := alert_calls s @ [Hw_led_info on]\<rparr>"

definition hw_led_warning :: "bool \<Rightarrow> alert_state \<Rightarrow> alert_state" where
  "hw_led_warning on s =
     s\<lparr>led_warning := on, alert_calls := alert_calls s @ [Hw_led_warning on]\<rparr>"

definition hw_led_critical :: "bool \<Rightarrow> alert_state \<Rightarrow> alert_state" where
  "hw_led_critical on s =
     s\<lparr>led_critical := on, alert_calls := alert_calls s @ [Hw_led_critical on]\<rparr>"

definition telemetry_send_alert :: "alert_level_t \<Rightarrow> alert_code_t \<Rightarrow> alert_state \<Rightarrow> alert_state" where
  "telemetry_send_alert level code s =
     s\<lparr>alert_calls := alert_calls s @ [Telemetry_send_alert level code]\<rparr>"

subsection \<open>Internal helpers\<close>

definition alert_clear_outputs :: "alert_state \<Rightarrow> alert_state" where
  "alert_clear_outputs s = hw_led_critical False (hw_led_warning False (hw_led_info False s))"

definition alert_set_outputs :: "alert_level_t \<Rightarrow> alert_state \<Rightarrow> alert_state" where
  "alert_set_outputs level s =
     (let s1 = alert_clear_outputs s in
      if level = ALERT_INFO then hw_led_info True s1
      else if level = ALERT_WARNING then hw_led_warning True s1
      else hw_led_critical True s1)"

subsection \<open>Public API\<close>

definition alert_init :: "alert_state \<Rightarrow> alert_state" where
  "alert_init s =
     alert_set_outputs ALERT_INFO (s\<lparr>current_level := ALERT_INFO, current_code := ALERT_NONE\<rparr>)"

definition alert_raise :: "alert_level_t \<Rightarrow> alert_code_t \<Rightarrow> alert_state \<Rightarrow> alert_state" where
  "alert_raise level code s =
     (if level \<ge> current_level s then
        telemetry_send_alert level code
          (alert_set_outputs level (s\<lparr>current_level := level, current_code := code\<rparr>))
      else s)"

definition alert_clear :: "alert_state \<Rightarrow> alert_state" where
  "alert_clear s =
     alert_set_outputs ALERT_INFO (s\<lparr>current_level := ALERT_INFO, current_code := ALERT_NONE\<rparr>)"

definition alert_get_level :: "alert_state \<Rightarrow> alert_level_t" where
  "alert_get_level s = current_level s"

definition alert_get_code :: "alert_state \<Rightarrow> alert_code_t" where
  "alert_get_code s = current_code s"

subsection \<open>Observations on a run of the alert manager\<close>

text \<open>The states after each call of a sequence of \<^verbatim>\<open>alert_raise\<close> calls, in order.\<close>

fun alert_raise_trace :: "alert_state \<Rightarrow> (alert_level_t \<times> alert_code_t) list \<Rightarrow> alert_state list" where
  "alert_raise_trace s [] = []"
| "alert_raise_trace s ((level, code) # calls) =
     alert_raise level code s # alert_raise_trace (alert_raise level code s) calls"

text \<open>The telemetry notifications among a list of hook invocations.\<close>

fun is_telemetry :: "alert_hook_call \<Rightarrow> bool" where
  "is_telemetry (Telemetry_send_alert level code) = True"
| "is_telemetry (Hw_led_info on) = False"
| "is_telemetry (Hw_led_warning on) = False"
| "is_telemetry (Hw_led_critical on) = False"

definition telemetry_count :: "alert_state \<Rightarrow> nat" where
  "telemetry_count s = length (filter is_telemetry (alert_calls s))"

text \<open>The number of indicators that are on.\<close>

definition active_indicators :: "alert_state \<Rightarrow> nat" where
  "active_indicators s =
     (if led_info s then 1 else 0) + (if led_warning s then 1 else 0)
       + (if led_critical s then 1 else 0)"

text \<open>The state of the module at program start (static initialisers), all indicators off.\<close>

definition alert_state0 :: alert_state where
  "alert_state0 =
     \<lparr>current_level = ALERT_INFO, current_code = ALERT_NONE,
      led_info = False, led_warning = False, led_critical = False, alert_calls = []\<rparr>"

section \<open>RADIO.c: the radio link guard\<close>

subsection \<open>Configuration\<close>

type_synonym u8 = "8 word"
type_synonym u16 = "16 word"

definition RADIO_TX_BUFFER_SIZE :: nat where "RADIO_TX_BUFFER_SIZE = 128"
definition RADIO_RX_BUFFER_SIZE :: nat where "RADIO_RX_BUFFER_SIZE = 128"

subsection \<open>Hardware hooks\<close>

text \<open>
  The four radio hooks are declared in RADIO.c and implemented by the platform layer,
  so they are parameters of the model. A hook acts on the platform's own state
  \<open>'hw\<close> and on the memory it is handed a pointer to; the static variables of
  RADIO.c are not visible to it.
  \<^item> \<^verbatim>\<open>hw_radio_send(data, length)\<close> reads the bytes at \<open>data\<close>.
  \<^item> \<^verbatim>\<open>hw_radio_receive(data, max_length, out_length)\<close> is handed the bytes at
    \<open>data\<close> and the value of the slot \<open>*out_length\<close>, and gives back what both hold
    when it returns.
\<close>

record 'hw radio_hooks =
  hw_radio_init :: "'hw \<Rightarrow> bool \<times> 'hw"
  hw_radio_send :: "u8 list \<Rightarrow> u16 \<Rightarrow> 'hw \<Rightarrow> bool \<times> 'hw"
  hw_radio_receive :: "u8 list \<Rightarrow> u16 \<Rightarrow> u16 \<Rightarrow> 'hw \<Rightarrow> bool \<times> u8 list \<times> u16 \<times> 'hw"
  hw_radio_link_status :: "'hw \<Rightarrow> bool \<times> 'hw"

text \<open>One invocation of a radio hook, with the arguments as the hook sees them.\<close>

datatype radio_hook_call =
    Hw_radio_init
  | Hw_radio_send "u8 list" u16
  | Hw_radio_receive "u8 list" u16 u16
  | Hw_radio_link_status

subsection \<open>Radio state\<close>

text \<open>
  The four static variables of the module, the state of the platform behind the hooks
  and the record of every hook invocation so far.
\<close>

record 'hw radio_state =
  radio_initialized :: bool
  radio_link_ok :: bool
  tx_buffer :: "u8 list"
  rx_buffer :: "u8 list"
  platform :: 'hw
  radio_calls :: "radio_hook_call list"

subsection \<open>Library functions\<close>

text \<open>
  \<^verbatim>\<open>memset(dst, c, n)\<close> and \<^verbatim>\<open>memcpy(dst, src, n)\<close> on the contents of the
  destination array: the first \<open>n\<close> bytes are replaced, the rest is kept.
  \<^verbatim>\<open>memcpy\<close> is applied only where \<open>src\<close> holds at least \<open>n\<close> bytes.
\<close>

definition memset_bytes :: "u8 list \<Rightarrow> u8 \<Rightarrow> nat \<Rightarrow> u8 list" where
  "memset_bytes dst c n = replicate n c @ drop n dst"

definition memcpy_bytes :: "u8 list \<Rightarrow> u8 list \<Rightarrow> nat \<Rightarrow> u8 list" where
  "memcpy_bytes dst src n = take n src @ drop n dst"

subsection \<open>Internal helpers\<close>

definition clear_buffers :: "'hw radio_state \<Rightarrow> 'hw radio_state" where
  "clear_buffers s =
     s\<lparr>tx_buffer := memset_bytes (tx_buffer s) 0 RADIO_TX_BUFFER_SIZE,
       rx_buffer := memset_bytes (rx_buffer s) 0 RADIO_RX_BUFFER_SIZE\<rparr>"

subsection \<open>Public API\<close>

definition radio_init :: "'hw radio_hooks \<Rightarrow> 'hw radio_state \<Rightarrow> 'hw radio_state" where
  "radio_init H s =
     (let s1 = clear_buffers s;
          (ok, p) = hw_radio_init H (platform s1)
      in s1\<lparr>radio_initialized := ok, radio_link_ok := False,
            platform := p, radio_calls := radio_calls s1 @ [Hw_radio_init]\<rparr>)"

definition radio_is_ready :: "'hw radio_state \<Rightarrow> bool \<times> 'hw radio_state" where
  "radio_is_ready s = (radio_initialized s, s)"

definition radio_link_status :: "'hw radio_hooks \<Rightarrow> 'hw radio_state \<Rightarrow> bool \<times> 'hw radio_state" where
  "radio_link_status H s =
     (let (up, p) = hw_radio_link_status H (platform s);
          s1 = s\<lparr>radio_link_ok := up, platform := p,
                 radio_calls := radio_calls s @ [Hw_radio_link_status]\<rparr>
      in (radio_link_ok s1, s1))"

text \<open>
  \<^verbatim>\<open>radio_send(data, length)\<close>. The argument \<open>data\<close> is the list of bytes readable
  at the caller's pointer (empty for a null pointer). Past the two guards the source
  calls \<^verbatim>\<open>memcpy(tx_buffer, data, length)\<close>; when fewer than \<open>length\<close> bytes are
  readable at \<open>data\<close> this read is undefined behaviour in C, and the model returns
  \<open>None\<close>.
\<close>

definition radio_send ::
  "'hw radio_hooks \<Rightarrow> u8 list \<Rightarrow> u16 \<Rightarrow> 'hw radio_state \<Rightarrow> (bool \<times> 'hw radio_state) option" where
  "radio_send H data len s =
     (if \<not> radio_initialized s then Some (False, s)
      else if len = 0 \<or> unat len > RADIO_TX_BUFFER_SIZE then Some (False, s)
      else if length data < unat len then None
      else
        (let s1 = s\<lparr>tx_buffer := memcpy_bytes (tx_buffer s) data (unat len)\<rparr>;
             (ok, p) = hw_radio_send H (tx_buffer s1) len (platform s1)
         in Some (ok, s1\<lparr>platform := p,
                         radio_calls := radio_calls s1 @ [Hw_radio_send (tx_buffer s1) len]\<rparr>)))"

text \<open>
  \<^verbatim>\<open>radio_receive(out_length)\<close>. The argument is the caller's slot: \<open>None\<close> for a
  null pointer, \<open>Some v\<close> for a slot holding \<open>v\<close>. The result is the returned flag,
  the slot afterwards and the new state.
\<close>

definition radio_receive ::
  "'hw radio_hooks \<Rightarrow> u16 option \<Rightarrow> 'hw radio_state \<Rightarrow> bool \<times> u16 option \<times> 'hw radio_state" where
  "radio_receive H out_length s =
     (if \<not> radio_initialized s \<or> out_length = None then (False, out_length, s)
      else
        (let slot = (0 :: u16);
             (ok, buf, n, p) =
               hw_radio_receive H (rx_buffer s) (of_nat RADIO_RX_BUFFER_SIZE) slot (platform s)
         in (ok, Some n,
             s\<lparr>rx_buffer := buf, platform := p,
               radio_calls := radio_calls s @
                 [Hw_radio_receive (rx_buffer s) (of_nat RADIO_RX_BUFFER_SIZE) slot]\<rparr>)))"

definition radio_rx_buffer :: "'hw radio_state \<Rightarrow> u8 list" where
  "radio_rx_buffer s = rx_buffer s"

subsection \<open>Observations on the radio link guard\<close>

text \<open>A call that the guards of \<^verbatim>\<open>radio_send\<close> reject before anything is copied.\<close>

definition send_rejected :: "u16 \<Rightarrow> 'hw radio_state \<Rightarrow> bool" where
  "send_rejected len s \<longleftrightarrow> \<not> radio_initialized s \<or> len = 0 \<or> unat len > 128"

text \<open>A call that the guard of \<^verbatim>\<open>radio_receive\<close> rejects.\<close>

definition receive_rejected :: "u16 option \<Rightarrow> 'hw radio_state \<Rightarrow> bool" where
  "receive_rejected out_length s \<longleftrightarrow> \<not> radio_initialized s \<or> out_length = None"

text \<open>The static initialisers of RADIO.c, over a platform in state \<open>p\<close>.\<close>

definition radio_state0 :: "'hw \<Rightarrow> 'hw radio_state" where
  "radio_state0 p =
     \<lparr>radio_initialized = False, radio_link_ok = False,
      tx_buffer = replicate 128 0, rx_buffer = replicate 128 0,
      platform = p, radio_calls = []\<rparr>"

text \<open>A platform without state whose hooks all succeed and receive nothing.\<close>

definition hooks_ok :: "unit radio_hooks" where
  "hooks_ok =
     \<lparr>hw_radio_init = (\<lambda>p. (True, p)),
      hw_radio_send = (\<lambda>buf len p. (True, p)),
      hw_radio_receive = (\<lambda>buf maxlen slot p. (True, buf, 0, p)),
      hw_radio_link_status = (\<lambda>p. (True, p))\<rparr>"

text \<open>
  A platform whose initialisation succeeds and whose send and receive hooks fail; the
  failing receive hook has already written one byte and a count.
\<close>

definition hooks_fail :: "unit radio_hooks" where
  "hooks_fail =
     \<lparr>hw_radio_init = (\<lambda>p. (True, p)),
      hw_radio_send = (\<lambda>buf len p. (False, p)),
      hw_radio_receive = (\<lambda>buf maxlen slot p. (False, buf[0 := 255], 1, p)),
      hw_radio_link_status = (\<lambda>p. (False, p))\<rparr>"

text \<open>
  The state right after \<^verbatim>\<open>radio_init()\<close> has succeeded on the static initialisers.
\<close>

definition radio_ready :: "unit radio_state" where
  "radio_ready = radio_init hooks_fail (radio_state0 ())"

section \<open>Properties of the alert manager\<close>

lemmas alert_consts = ALERT_INFO_def ALERT_WARNING_def ALERT_CRITICAL_def ALERT_NONE_def

lemmas alert_hook_defs = hw_led_info_def hw_led_warning_def hw_led_critical_def
  telemetry_send_alert_def alert_clear_outputs_def alert_set_outputs_def

lemma alert_set_outputs_level [simp]:
  "current_level (alert_set_outputs level s) = current_level s"
  "current_code (alert_set_outputs level s) = current_code s"
  by (simp_all add: alert_hook_defs Let_def)

lemma alert_set_outputs_leds:
  "led_info (alert_set_outputs level s) = (level = ALERT_INFO)"
  "led_warning (alert_set_outputs level s) = (level \<noteq> ALERT_INFO \<and> level = ALERT_WARNING)"
  "led_critical (alert_set_outputs level s) = (level \<noteq> ALERT_INFO \<and> level \<noteq> ALERT_WARNING)"
  by (simp_all add: alert_hook_defs Let_def)

lemma alert_set_outputs_calls:
  "alert_calls (alert_set_outputs level s) =
     alert_calls s @ [Hw_led_info False, Hw_led_warning False, Hw_led_critical False,
       if level = ALERT_INFO then Hw_led_info True
       else if level = ALERT_WARNING then Hw_led_warning True
       else Hw_led_critical True]"
  by (simp add: alert_hook_defs Let_def)

lemma alert_set_outputs_telemetry [simp]:
  "telemetry_count (alert_set_outputs level s) = telemetry_count s"
  by (simp add: telemetry_count_def alert_set_outputs_calls)

lemma alert_set_outputs_one_active [simp]:
  "active_indicators (alert_set_outputs level s) = 1"
  by (simp add: active_indicators_def alert_set_outputs_leds)

lemma alert_raise_level_mono: "current_level s \<le> current_level (alert_raise level code s)"
  by (simp add: alert_raise_def telemetry_send_alert_def)

lemma alert_raise_trace_sorted:
  "sorted (map current_level (s # alert_raise_trace s calls))"
proof (induction calls arbitrary: s)
  case Nil
  show ?case by simp
next
  case (Cons c calls)
  obtain level code where c: "c = (level, code)" by (cases c)
  let ?t = "alert_raise level code s"
  have step: "current_level s \<le> current_level ?t" by (rule alert_raise_level_mono)
  have rest: "sorted (map current_level (?t # alert_raise_trace ?t calls))" by (rule Cons.IH)
  have "\<forall>x \<in> set (map current_level (?t # alert_raise_trace ?t calls)). current_level s \<le> x"
    using rest step by (auto simp del: alert_raise_trace.simps)
  with rest show ?case unfolding c by simp
qed

text \<open>
  C1. Along every sequence of \<^verbatim>\<open>alert_raise\<close> calls, from any state, the severity
  level never decreases: the list of levels before the first call and after each call
  is sorted. \<^verbatim>\<open>alert_clear\<close> resets the state to \<open>(Info, None)\<close> from any state.
\<close>

theorem alert_level_monotone:
  "sorted (map current_level (s # alert_raise_trace s calls))
   \<and> current_level (alert_clear t) = ALERT_INFO
   \<and> current_code (alert_clear t) = ALERT_NONE"
  by (simp add: alert_raise_trace_sorted alert_clear_def del: sorted_wrt.simps list.map)

text \<open>
  C2. With \<open>Info < Warning < Critical\<close>, \<^verbatim>\<open>alert_raise(level, code)\<close> takes
  effect if and only if \<open>level \<ge> current_level\<close>, equality included. When it does, the
  state is \<open>(level, code)\<close>, exactly one indicator is on and it is the one of
  \<open>level\<close>, the hooks invoked are the three indicators switched off, the indicator of
  \<open>level\<close> switched on and one telemetry notification \<open>(level, code)\<close>, in this
  order, and the number of telemetry notifications grows by one.
\<close>

theorem alert_raise_accept:
  "ALERT_INFO < ALERT_WARNING \<and> ALERT_WARNING < ALERT_CRITICAL
   \<and> (alert_raise level code s \<noteq> s \<longleftrightarrow> level \<ge> current_level s)
   \<and> (level \<ge> current_level s \<longrightarrow>
        current_level (alert_raise level code s) = level
      \<and> current_code (alert_raise level code s) = code
      \<and> active_indicators (alert_raise level code s) = 1
      \<and> (level = ALERT_INFO \<longrightarrow> led_info (alert_raise level code s))
      \<and> (level = ALERT_WARNING \<longrightarrow> led_warning (alert_raise level code s))
      \<and> (level = ALERT_CRITICAL \<longrightarrow> led_critical (alert_raise level code s))
      \<and> alert_calls (alert_raise level code s) =
          alert_calls s @ [Hw_led_info False, Hw_led_warning False, Hw_led_critical False,
            if level = ALERT_INFO then Hw_led_info True
            else if level = ALERT_WARNING then Hw_led_warning True
            else Hw_led_critical True,
            Telemetry_send_alert level code]
      \<and> telemetry_count (alert_raise level code s) = telemetry_count s + 1)"
proof -
  have calls: "level \<ge> current_level s \<Longrightarrow> alert_calls (alert_raise level code s) =
      alert_calls s @ [Hw_led_info False, Hw_led_warning False, Hw_led_critical False,
            if level = ALERT_INFO then Hw_led_info True
            else if level = ALERT_WARNING then Hw_led_warning True
            else Hw_led_critical True,
            Telemetry_send_alert level code]"
    by (simp add: alert_raise_def telemetry_send_alert_def alert_set_outputs_calls)
  have neq: "level \<ge> current_level s \<Longrightarrow> alert_raise level code s \<noteq> s"
  proof
    assume a: "level \<ge> current_level s" and e: "alert_raise level code s = s"
    have "length (alert_calls (alert_raise level code s)) = length (alert_calls s) + 5"
      using calls [OF a] by simp
    with e show False by simp
  qed
  have rej: "\<not> level \<ge> current_level s \<Longrightarrow> alert_raise level code s = s"
    by (simp add: alert_raise_def)
  have leds: "level \<ge> current_level s \<Longrightarrow>
      led_info (alert_raise level code s) = (level = ALERT_INFO)
    \<and> led_warning (alert_raise level code s) = (level \<noteq> ALERT_INFO \<and> level = ALERT_WARNING)
    \<and> led_critical (alert_raise level code s) = (level \<noteq> ALERT_INFO \<and> level \<noteq> ALERT_WARNING)
    \<and> active_indicators (alert_raise level code s) = 1"
    by (simp add: alert_raise_def telemetry_send_alert_def alert_set_outputs_leds active_indicators_def)
  have st: "level \<ge> current_level s \<Longrightarrow>
      current_level (alert_raise level code s) = level \<and> current_code (alert_raise level code s) = code"
    by (simp add: alert_raise_def telemetry_send_alert_def)
  have tc: "level \<ge> current_level s \<Longrightarrow>
     telemetry_count (alert_raise level code s) = telemetry_count s + 1"
    using calls by (simp add: telemetry_count_def)
  have ord: "ALERT_INFO < ALERT_WARNING \<and> ALERT_WARNING < ALERT_CRITICAL"
    by (simp add: alert_consts)
  show ?thesis using calls neq rej leds st tc ord
    by (auto simp add: alert_consts)
qed

text \<open>
  A raise at Warning on a state already at Warning is accepted: the code is replaced
  and a second notification is sent.
\<close>

theorem alert_raise_accept_witness:
  "ALERT_WARNING \<ge> current_level (alert_raise ALERT_WARNING ALERT_SENSOR_FAIL (alert_init alert_state0))
   \<and> current_code (alert_raise ALERT_WARNING ALERT_OVER_PRESSURE
         (alert_raise ALERT_WARNING ALERT_SENSOR_FAIL (alert_init alert_state0))) = ALERT_OVER_PRESSURE
   \<and> led_warning (alert_raise ALERT_WARNING ALERT_OVER_PRESSURE
         (alert_raise ALERT_WARNING ALERT_SENSOR_FAIL (alert_init alert_state0)))
   \<and> telemetry_count (alert_raise ALERT_WARNING ALERT_OVER_PRESSURE
         (alert_raise ALERT_WARNING ALERT_SENSOR_FAIL (alert_init alert_state0))) = 2"
proof -
  let ?s0 = "alert_init alert_state0"
  let ?s1 = "alert_raise ALERT_WARNING ALERT_SENSOR_FAIL ?s0"
  have l0: "current_level ?s0 = ALERT_INFO" by (simp add: alert_init_def)
  have t0: "telemetry_count ?s0 = 0"
    by (simp add: alert_init_def telemetry_count_def alert_state0_def alert_set_outputs_calls)
  have h0: "ALERT_WARNING \<ge> current_level ?s0" using l0 by (simp add: alert_consts)
  note a1 = alert_raise_accept [of ALERT_WARNING ALERT_SENSOR_FAIL ?s0]
  have l1: "current_level ?s1 = ALERT_WARNING" using a1 h0 by blast
  have t1: "telemetry_count ?s1 = 1" using a1 h0 t0 by simp
  have h1: "ALERT_WARNING \<ge> current_level ?s1" using l1 by simp
  note a2 = alert_raise_accept [of ALERT_WARNING ALERT_OVER_PRESSURE ?s1]
  show ?thesis using a2 h1 t1 by simp
qed

text \<open>
  C5. An \<^verbatim>\<open>alert_raise\<close> with a level strictly below the current one changes
  nothing: the stored level and code, the three indicators, the hook invocations and
  the number of telemetry notifications are as before.
\<close>

theorem alert_raise_lower_noop:
  assumes "level < current_level s"
  shows "alert_raise level code s = s
       \<and> current_level (alert_raise level code s) = current_level s
       \<and> current_code (alert_raise level code s) = current_code s
       \<and> led_info (alert_raise level code s) = led_info s
       \<and> led_warning (alert_raise level code s) = led_warning s
       \<and> led_critical (alert_raise level code s) = led_critical s
       \<and> alert_calls (alert_raise level code s) = alert_calls s
       \<and> telemetry_count (alert_raise level code s) = telemetry_count s"
  using assms by (simp add: alert_raise_def)

text \<open>
  C8. After \<^verbatim>\<open>alert_init\<close> and after \<^verbatim>\<open>alert_clear\<close>, \<^verbatim>\<open>alert_get_level\<close>
  returns Info and \<^verbatim>\<open>alert_get_code\<close> returns None, the Info indicator is on and the
  other two are off, and the only hooks invoked are the four indicator calls: no
  telemetry notification is sent.
\<close>

theorem alert_init_clear_baseline:
  "alert_get_level (alert_init s) = ALERT_INFO \<and> alert_get_code (alert_init s) = ALERT_NONE
   \<and> led_info (alert_init s) \<and> \<not> led_warning (alert_init s) \<and> \<not> led_critical (alert_init s)
   \<and> telemetry_count (alert_init s) = telemetry_count s
   \<and> alert_calls (alert_init s) =
        alert_calls s @ [Hw_led_info False, Hw_led_warning False, Hw_led_critical False, Hw_led_info True]
   \<and> alert_get_level (alert_clear s) = ALERT_INFO \<and> alert_get_code (alert_clear s) = ALERT_NONE
   \<and> led_info (alert_clear s) \<and> \<not> led_warning (alert_clear s) \<and> \<not> led_critical (alert_clear s)
   \<and> telemetry_count (alert_clear s) = telemetry_count s
   \<and> alert_calls (alert_clear s) =
        alert_calls s @ [Hw_led_info False, Hw_led_warning False, Hw_led_critical False, Hw_led_info True]"
  by (simp add: alert_init_def alert_clear_def alert_get_level_def alert_get_code_def
      alert_set_outputs_leds alert_set_outputs_calls telemetry_count_def)

text \<open>
  C9. For every level that is neither Info nor Warning, whatever its numeric value, an
  accepted \<^verbatim>\<open>alert_raise\<close> leaves the Critical indicator on and the other two off:
  \<^verbatim>\<open>alert_set_outputs\<close> takes its last branch.
\<close>

theorem alert_raise_other_level_critical:
  assumes "level \<noteq> ALERT_INFO" and "level \<noteq> ALERT_WARNING" and "level \<ge> current_level s"
  shows "led_critical (alert_raise level code s)
       \<and> \<not> led_info (alert_raise level code s)
       \<and> \<not> led_warning (alert_raise level code s)
       \<and> alert_set_outputs level t = hw_led_critical True (alert_clear_outputs t)
       \<and> alert_calls (alert_raise level code s) =
          alert_calls s @ [Hw_led_info False, Hw_led_warning False, Hw_led_critical False,
            Hw_led_critical True, Telemetry_send_alert level code]"
  using assms
  by (simp add: alert_raise_def telemetry_send_alert_def alert_set_outputs_leds
      alert_set_outputs_calls) (simp add: alert_set_outputs_def)

theorem alert_raise_other_level_critical_witness:
  "(7::int) \<noteq> ALERT_INFO \<and> 7 \<noteq> ALERT_WARNING \<and> 7 \<ge> current_level (alert_init alert_state0)
   \<and> led_critical (alert_raise 7 ALERT_ENGINE_FAULT (alert_init alert_state0))
   \<and> \<not> led_info (alert_raise 7 ALERT_ENGINE_FAULT (alert_init alert_state0))
   \<and> \<not> led_warning (alert_raise 7 ALERT_ENGINE_FAULT (alert_init alert_state0))"
proof -
  have h1: "(7::int) \<noteq> ALERT_INFO" and h2: "(7::int) \<noteq> ALERT_WARNING"
    by (simp_all add: alert_consts)
  have h3: "7 \<ge> current_level (alert_init alert_state0)"
    by (simp add: alert_init_def alert_consts)
  show ?thesis
    using h1 h2 h3 alert_raise_other_level_critical [OF h1 h2 h3, of ALERT_ENGINE_FAULT]
    by simp
qed

theorem alert_raise_lower_noop_witness:
  "ALERT_INFO < current_level (alert_raise ALERT_WARNING ALERT_SENSOR_FAIL (alert_init alert_state0))
   \<and> alert_raise ALERT_INFO ALERT_NONE (alert_raise ALERT_WARNING ALERT_SENSOR_FAIL (alert_init alert_state0))
       = alert_raise ALERT_WARNING ALERT_SENSOR_FAIL (alert_init alert_state0)
   \<and> telemetry_count (alert_raise ALERT_INFO ALERT_NONE
         (alert_raise ALERT_WARNING ALERT_SENSOR_FAIL (alert_init alert_state0))) = 1"
proof -
  let ?s1 = "alert_raise ALERT_WARNING ALERT_SENSOR_FAIL (alert_init alert_state0)"
  have h: "ALERT_INFO < current_level ?s1"
    by (simp add: alert_raise_def alert_init_def telemetry_send_alert_def alert_consts)
  have t: "telemetry_count ?s1 = 1"
    by (simp add: alert_raise_def alert_init_def telemetry_send_alert_def alert_consts
        telemetry_count_def alert_set_outputs_calls alert_state0_def)
  show ?thesis
    using h t alert_raise_lower_noop [OF h, of ALERT_NONE] by simp
qed

section \<open>Properties of the radio link guard\<close>

lemmas radio_sizes = RADIO_TX_BUFFER_SIZE_def RADIO_RX_BUFFER_SIZE_def

lemma radio_send_rejected:
  "send_rejected len s \<Longrightarrow> radio_send H data len s = Some (False, s)"
  by (auto simp add: radio_send_def send_rejected_def radio_sizes)

lemma radio_send_forwarded:
  assumes "\<not> send_rejected len s" and "unat len \<le> length data"
  shows "radio_send H data len s =
     Some (fst (hw_radio_send H (take (unat len) data @ drop (unat len) (tx_buffer s)) len (platform s)),
           s\<lparr>tx_buffer := take (unat len) data @ drop (unat len) (tx_buffer s),
             platform := snd (hw_radio_send H
                (take (unat len) data @ drop (unat len) (tx_buffer s)) len (platform s)),
             radio_calls := radio_calls s @
                [Hw_radio_send (take (unat len) data @ drop (unat len) (tx_buffer s)) len]\<rparr>)"
  using assms
  by (simp add: radio_send_def send_rejected_def radio_sizes memcpy_bytes_def Let_def
      split: prod.splits)

lemma radio_send_undefined:
  "\<not> send_rejected len s \<Longrightarrow> length data < unat len \<Longrightarrow> radio_send H data len s = None"
  by (simp add: radio_send_def send_rejected_def radio_sizes)

lemma radio_receive_rejected:
  "receive_rejected out_length s \<Longrightarrow> radio_receive H out_length s = (False, out_length, s)"
  by (auto simp add: radio_receive_def receive_rejected_def)

lemma radio_receive_delegated:
  assumes "\<not> receive_rejected out_length s"
  shows "radio_receive H out_length s =
     (case hw_radio_receive H (rx_buffer s) 128 0 (platform s) of
        (ok, buf, n, p) \<Rightarrow>
          (ok, Some n,
           s\<lparr>rx_buffer := buf, platform := p,
             radio_calls := radio_calls s @ [Hw_radio_receive (rx_buffer s) 128 0]\<rparr>))"
  using assms
  by (simp add: radio_receive_def receive_rejected_def radio_sizes Let_def split: prod.splits)

text \<open>
  C4. \<^verbatim>\<open>radio_send(data, length)\<close> returns false and leaves the whole state as it
  was, the record of hook invocations included, when the radio is not initialised,
  \<open>length = 0\<close> or \<open>length > 128\<close>. Otherwise, for \<open>data\<close> holding at least
  \<open>length\<close> bytes, the first \<open>length\<close> bytes of the transmit buffer become
  \<open>data[0..length)\<close>, the rest of the buffer is kept, the send hook is invoked once
  with this buffer and this length, and its result is returned.
\<close>

theorem radio_send_spec:
  "(send_rejected len s \<longrightarrow>
      radio_send H data len s = Some (False, s)
    \<and> (\<forall>r s'. radio_send H data len s = Some (r, s') \<longrightarrow> radio_calls s' = radio_calls s))
   \<and> (\<not> send_rejected len s \<and> unat len \<le> length data \<longrightarrow>
      radio_send H data len s =
        Some (fst (hw_radio_send H (take (unat len) data @ drop (unat len) (tx_buffer s)) len (platform s)),
              s\<lparr>tx_buffer := take (unat len) data @ drop (unat len) (tx_buffer s),
                platform := snd (hw_radio_send H
                   (take (unat len) data @ drop (unat len) (tx_buffer s)) len (platform s)),
                radio_calls := radio_calls s @
                   [Hw_radio_send (take (unat len) data @ drop (unat len) (tx_buffer s)) len]\<rparr>))"
  using radio_send_rejected [of len s H data] radio_send_forwarded [of len s data H]
  by simp

text \<open>
  C6. \<^verbatim>\<open>radio_receive(out_length)\<close> returns false and leaves the state and the slot
  as they were when the radio is not initialised or \<open>out_length\<close> is null. Otherwise the
  receive hook is invoked once with the receive buffer, the maximum length 128 and the
  slot holding 0; the hook's flag is returned, and the buffer and the slot are as the
  hook left them.
\<close>

theorem radio_receive_spec:
  "(receive_rejected out_length s \<longrightarrow> radio_receive H out_length s = (False, out_length, s))
   \<and> (\<not> receive_rejected out_length s \<longrightarrow>
       radio_receive H out_length s =
         (case hw_radio_receive H (rx_buffer s) 128 0 (platform s) of
            (ok, buf, n, p) \<Rightarrow>
              (ok, Some n,
               s\<lparr>rx_buffer := buf, platform := p,
                 radio_calls := radio_calls s @ [Hw_radio_receive (rx_buffer s) 128 0]\<rparr>)))"
  using radio_receive_rejected [of out_length s H] radio_receive_delegated [of out_length s H]
  by simp

text \<open>
  C7. \<^verbatim>\<open>radio_init\<close> fills the 128 bytes of each buffer with zero, sets the
  initialised flag to the result of the init hook and sets \<open>radio_link_ok\<close> to false
  whatever it was. \<^verbatim>\<open>radio_link_status\<close> invokes the link-status hook on every
  call, stores its result in \<open>radio_link_ok\<close> and returns it.
\<close>

theorem radio_init_link_status_spec:
  "tx_buffer (radio_init H s) = replicate 128 0 @ drop 128 (tx_buffer s)
   \<and> rx_buffer (radio_init H s) = replicate 128 0 @ drop 128 (rx_buffer s)
   \<and> radio_initialized (radio_init H s) = fst (hw_radio_init H (platform s))
   \<and> radio_link_ok (radio_init H s) = False
   \<and> radio_calls (radio_init H s) = radio_calls s @ [Hw_radio_init]
   \<and> fst (radio_link_status H s) = fst (hw_radio_link_status H (platform s))
   \<and> radio_link_ok (snd (radio_link_status H s)) = fst (hw_radio_link_status H (platform s))
   \<and> radio_calls (snd (radio_link_status H s)) = radio_calls s @ [Hw_radio_link_status]"
  by (simp add: radio_init_def radio_link_status_def clear_buffers_def memset_bytes_def
      radio_sizes Let_def split: prod.splits)

text \<open>
  C10. \<^verbatim>\<open>radio_send\<close> never changes the receive buffer, \<^verbatim>\<open>radio_receive\<close>
  never changes the transmit buffer, \<^verbatim>\<open>radio_link_status\<close> changes neither buffer
  nor the initialised flag, and \<^verbatim>\<open>radio_is_ready\<close> changes nothing at all.
\<close>

theorem radio_buffers_disjoint:
  "(\<forall>r s'. radio_send H data len s = Some (r, s') \<longrightarrow> rx_buffer s' = rx_buffer s)
   \<and> tx_buffer (snd (snd (radio_receive H out_length s))) = tx_buffer s
   \<and> tx_buffer (snd (radio_link_status H s)) = tx_buffer s
   \<and> rx_buffer (snd (radio_link_status H s)) = rx_buffer s
   \<and> radio_initialized (snd (radio_link_status H s)) = radio_initialized s
   \<and> snd (radio_is_ready s) = s
   \<and> fst (radio_is_ready s) = radio_initialized s"
  by (auto simp add: radio_send_def radio_receive_def radio_link_status_def radio_is_ready_def
      Let_def split: prod.splits if_splits)

lemma radio_send_failed_frame:
  assumes "radio_send H data len s = Some (False, s')"
  shows "radio_initialized s' = radio_initialized s
     \<and> radio_link_ok s' = radio_link_ok s
     \<and> rx_buffer s' = rx_buffer s
     \<and> (send_rejected len s \<longrightarrow> s' = s)
     \<and> (\<not> send_rejected len s \<longrightarrow>
          tx_buffer s' = take (unat len) data @ drop (unat len) (tx_buffer s))"
proof (cases "send_rejected len s")
  case True
  with assms radio_send_rejected [OF True, of H data] show ?thesis by simp
next
  case False
  have "unat len \<le> length data"
  proof (rule ccontr)
    assume "\<not> unat len \<le> length data"
    then have "radio_send H data len s = None"
      using False by (simp add: radio_send_undefined)
    with assms show False by simp
  qed
  from radio_send_forwarded [OF False this, of H] assms
  have "s' = s\<lparr>tx_buffer := take (unat len) data @ drop (unat len) (tx_buffer s),
             platform := snd (hw_radio_send H
                (take (unat len) data @ drop (unat len) (tx_buffer s)) len (platform s)),
             radio_calls := radio_calls s @
                [Hw_radio_send (take (unat len) data @ drop (unat len) (tx_buffer s)) len]\<rparr>"
    by simp
  then show ?thesis using False by simp
qed

lemma radio_receive_failed_frame:
  assumes "radio_receive H out_length s = (False, slot, s')"
  shows "radio_initialized s' = radio_initialized s
     \<and> radio_link_ok s' = radio_link_ok s
     \<and> tx_buffer s' = tx_buffer s
     \<and> (receive_rejected out_length s \<longrightarrow> s' = s \<and> slot = out_length)
     \<and> (\<not> receive_rejected out_length s \<longrightarrow>
          (case hw_radio_receive H (rx_buffer s) 128 0 (platform s) of
             (ok, buf, n, p) \<Rightarrow>
               \<not> ok \<and> slot = Some n
             \<and> s' = s\<lparr>rx_buffer := buf, platform := p,
                      radio_calls := radio_calls s @ [Hw_radio_receive (rx_buffer s) 128 0]\<rparr>))"
proof (cases "receive_rejected out_length s")
  case True
  with assms radio_receive_rejected [OF True, of H] show ?thesis by simp
next
  case False
  obtain ok buf n p where h: "hw_radio_receive H (rx_buffer s) 128 0 (platform s) = (ok, buf, n, p)"
    by (cases "hw_radio_receive H (rx_buffer s) 128 0 (platform s)")
  from radio_receive_delegated [OF False, of H] assms h
  have "\<not> ok" and "slot = Some n"
    and "s' = s\<lparr>rx_buffer := buf, platform := p,
                 radio_calls := radio_calls s @ [Hw_radio_receive (rx_buffer s) 128 0]\<rparr>"
    by simp_all
  then show ?thesis using False h by simp
qed

text \<open>
  C3, amended. A \<^verbatim>\<open>radio_send\<close> or \<^verbatim>\<open>radio_receive\<close> that returns false leaves
  the initialised flag and the link flag unchanged; a failed send leaves the receive
  buffer unchanged and a failed receive leaves the transmit buffer unchanged. When the
  call was rejected by a guard the whole state (and the slot) is unchanged. A send that
  passed the guards and failed in the hook has already copied \<open>data[0..length)\<close> into
  the transmit buffer. After a receive that passed the guard and failed in the hook,
  the hook has been invoked once with the receive buffer, 128 and the slot holding 0,
  and the receive buffer, the slot and the platform are exactly as the hook left them.
\<close>

theorem radio_failure_frame:
  "(\<forall>s'. radio_send H data len s = Some (False, s') \<longrightarrow>
       radio_initialized s' = radio_initialized s
     \<and> radio_link_ok s' = radio_link_ok s
     \<and> rx_buffer s' = rx_buffer s
     \<and> (send_rejected len s \<longrightarrow> s' = s)
     \<and> (\<not> send_rejected len s \<longrightarrow>
          tx_buffer s' = take (unat len) data @ drop (unat len) (tx_buffer s)))
   \<and> (\<forall>slot s'. radio_receive H out_length s = (False, slot, s') \<longrightarrow>
       radio_initialized s' = radio_initialized s
     \<and> radio_link_ok s' = radio_link_ok s
     \<and> tx_buffer s' = tx_buffer s
     \<and> (receive_rejected out_length s \<longrightarrow> s' = s \<and> slot = out_length)
     \<and> (\<not> receive_rejected out_length s \<longrightarrow>
          (case hw_radio_receive H (rx_buffer s) 128 0 (platform s) of
             (ok, buf, n, p) \<Rightarrow>
               \<not> ok \<and> slot = Some n
             \<and> s' = s\<lparr>rx_buffer := buf, platform := p,
                      radio_calls := radio_calls s @ [Hw_radio_receive (rx_buffer s) 128 0]\<rparr>)))"
  by (rule conjI; intro allI impI;
      (erule radio_send_failed_frame | erule radio_receive_failed_frame))

lemma radio_ready_fields:
  "radio_initialized radio_ready"
  "\<not> radio_link_ok radio_ready"
  "tx_buffer radio_ready = replicate 128 0"
  "rx_buffer radio_ready = replicate 128 0"
  "platform radio_ready = ()"
  "radio_calls radio_ready = [Hw_radio_init]"
  by (simp_all add: radio_ready_def radio_init_def radio_state0_def hooks_fail_def
      clear_buffers_def memset_bytes_def radio_sizes)

lemma replicate_128_split: "replicate 128 (0::u8) = 0 # replicate 127 0"
proof -
  have "replicate (Suc 127) (0::u8) = 0 # replicate 127 0" by (rule replicate_Suc)
  then show ?thesis by simp
qed

lemma radio_ready_send_one:
  "radio_send hooks_fail [1] 1 radio_ready =
     Some (False, radio_ready\<lparr>tx_buffer := 1 # replicate 127 0,
                   radio_calls := [Hw_radio_init, Hw_radio_send (1 # replicate 127 0) 1]\<rparr>)"
  by (simp add: radio_send_def radio_ready_fields radio_sizes memcpy_bytes_def hooks_fail_def)

lemma radio_ready_receive:
  "radio_receive hooks_fail (Some 5) radio_ready =
     (False, Some 1, radio_ready\<lparr>rx_buffer := 255 # replicate 127 0,
                   radio_calls := [Hw_radio_init, Hw_radio_receive (replicate 128 0) 128 0]\<rparr>)"
  by (simp add: radio_receive_def radio_ready_fields radio_sizes hooks_fail_def
      replicate_128_split)

text \<open>
  C3 as stated fails: on an initialised radio whose send hook reports failure, sending
  the single byte 1 returns false with the first byte of the transmit buffer changed
  from 0 to 1. Likewise a receive whose hook wrote a byte and then reported failure
  returns false with the first byte of the receive buffer changed from 0 to 255.
\<close>

theorem radio_failure_unchanged_counterexample:
  "radio_send hooks_fail [1] 1 radio_ready =
     Some (False, radio_ready\<lparr>tx_buffer := 1 # replicate 127 0,
                   radio_calls := [Hw_radio_init, Hw_radio_send (1 # replicate 127 0) 1]\<rparr>)
   \<and> tx_buffer radio_ready = 0 # replicate 127 0
   \<and> radio_ready\<lparr>tx_buffer := 1 # replicate 127 0,
                   radio_calls := [Hw_radio_init, Hw_radio_send (1 # replicate 127 0) 1]\<rparr>
       \<noteq> radio_ready
   \<and> radio_receive hooks_fail (Some 5) radio_ready =
     (False, Some 1, radio_ready\<lparr>rx_buffer := 255 # replicate 127 0,
                   radio_calls := [Hw_radio_init, Hw_radio_receive (replicate 128 0) 128 0]\<rparr>)
   \<and> rx_buffer radio_ready = 0 # replicate 127 0"
proof -
  have a: "tx_buffer radio_ready = 0 # replicate 127 0"
    by (simp add: radio_ready_fields replicate_128_split)
  have c: "rx_buffer radio_ready = 0 # replicate 127 0"
    by (simp add: radio_ready_fields replicate_128_split)
  have "tx_buffer (radio_ready\<lparr>tx_buffer := 1 # replicate 127 0,
                   radio_calls := [Hw_radio_init, Hw_radio_send (1 # replicate 127 0) 1]\<rparr>)
        \<noteq> tx_buffer radio_ready"
    unfolding a by simp
  then have b: "radio_ready\<lparr>tx_buffer := 1 # replicate 127 0,
                   radio_calls := [Hw_radio_init, Hw_radio_send (1 # replicate 127 0) 1]\<rparr>
       \<noteq> radio_ready" by metis
  show ?thesis using radio_ready_send_one radio_ready_receive a b c by simp
qed

theorem radio_failure_frame_witness:
  "radio_send hooks_fail [1] 1 radio_ready =
     Some (False, radio_ready\<lparr>tx_buffer := 1 # replicate 127 0,
                   radio_calls := [Hw_radio_init, Hw_radio_send (1 # replicate 127 0) 1]\<rparr>)
   \<and> \<not> send_rejected 1 radio_ready
   \<and> radio_receive hooks_fail (Some 5) radio_ready =
       (False, Some 1, radio_ready\<lparr>rx_buffer := 255 # replicate 127 0,
                   radio_calls := [Hw_radio_init, Hw_radio_receive (replicate 128 0) 128 0]\<rparr>)
   \<and> \<not> receive_rejected (Some 5) radio_ready
   \<and> radio_send hooks_fail [] 0 radio_ready = Some (False, radio_ready)
   \<and> send_rejected 0 radio_ready
   \<and> radio_receive hooks_fail None radio_ready = (False, None, radio_ready)
   \<and> receive_rejected None radio_ready
   \<and> tx_buffer (radio_ready\<lparr>tx_buffer := 1 # replicate 127 0,
                   radio_calls := [Hw_radio_init, Hw_radio_send (1 # replicate 127 0) 1]\<rparr>)
       = take (unat (1 :: u16)) [1] @ drop (unat (1 :: u16)) (tx_buffer radio_ready)
   \<and> rx_buffer (radio_ready\<lparr>tx_buffer := 1 # replicate 127 0,
                   radio_calls := [Hw_radio_init, Hw_radio_send (1 # replicate 127 0) 1]\<rparr>)
       = rx_buffer radio_ready
   \<and> (case hw_radio_receive hooks_fail (rx_buffer radio_ready) 128 0 (platform radio_ready) of
        (ok, buf, n, p) \<Rightarrow>
          \<not> ok \<and> Some (1 :: u16) = Some n
        \<and> radio_ready\<lparr>rx_buffer := 255 # replicate 127 0,
               radio_calls := [Hw_radio_init, Hw_radio_receive (replicate 128 0) 128 0]\<rparr>
            = radio_ready\<lparr>rx_buffer := buf, platform := p,
                 radio_calls := radio_calls radio_ready @
                   [Hw_radio_receive (rx_buffer radio_ready) 128 0]\<rparr>)"
proof -
  let ?X = "radio_ready\<lparr>tx_buffer := 1 # replicate 127 0,
                   radio_calls := [Hw_radio_init, Hw_radio_send (1 # replicate 127 0) 1]\<rparr>"
  let ?Y = "radio_ready\<lparr>rx_buffer := 255 # replicate 127 0,
                   radio_calls := [Hw_radio_init, Hw_radio_receive (replicate 128 0) 128 0]\<rparr>"
  have h1: "radio_send hooks_fail [1] 1 radio_ready = Some (False, ?X)"
    by (rule radio_ready_send_one)
  have h2: "\<not> send_rejected 1 radio_ready"
    by (simp add: send_rejected_def radio_ready_fields)
  have h3: "radio_receive hooks_fail (Some 5) radio_ready = (False, Some 1, ?Y)"
    by (rule radio_ready_receive)
  have h4: "\<not> receive_rejected (Some 5) radio_ready"
    by (simp add: receive_rejected_def radio_ready_fields)
  have h5: "radio_send hooks_fail [] 0 radio_ready = Some (False, radio_ready)"
    by (simp add: radio_send_def)
  have h6: "send_rejected 0 radio_ready"
    by (simp add: send_rejected_def)
  have h7: "radio_receive hooks_fail None radio_ready = (False, None, radio_ready)"
    by (simp add: radio_receive_def)
  have h8: "receive_rejected None radio_ready"
    by (simp add: receive_rejected_def)
  note frame = radio_failure_frame [of hooks_fail "[1]" 1 radio_ready "Some 5"]
  from frame have
    "\<forall>s'. radio_send hooks_fail [1] 1 radio_ready = Some (False, s') \<longrightarrow>
       radio_initialized s' = radio_initialized radio_ready
     \<and> radio_link_ok s' = radio_link_ok radio_ready
     \<and> rx_buffer s' = rx_buffer radio_ready
     \<and> (send_rejected 1 radio_ready \<longrightarrow> s' = radio_ready)
     \<and> (\<not> send_rejected 1 radio_ready \<longrightarrow>
          tx_buffer s' = take (unat (1 :: u16)) [1] @ drop (unat (1 :: u16)) (tx_buffer radio_ready))"
    by (rule conjunct1)
  with h1 h2 have c1: "tx_buffer ?X = take (unat (1 :: u16)) [1] @ drop (unat (1 :: u16)) (tx_buffer radio_ready)"
    and c2: "rx_buffer ?X = rx_buffer radio_ready"
    by blast+
  from frame have
    "\<forall>slot s'. radio_receive hooks_fail (Some 5) radio_ready = (False, slot, s') \<longrightarrow>
       radio_initialized s' = radio_initialized radio_ready
     \<and> radio_link_ok s' = radio_link_ok radio_ready
     \<and> tx_buffer s' = tx_buffer radio_ready
     \<and> (receive_rejected (Some 5) radio_ready \<longrightarrow> s' = radio_ready \<and> slot = Some 5)
     \<and> (\<not> receive_rejected (Some 5) radio_ready \<longrightarrow>
          (case hw_radio_receive hooks_fail (rx_buffer radio_ready) 128 0 (platform radio_ready) of
             (ok, buf, n, p) \<Rightarrow>
               \<not> ok \<and> slot = Some n
             \<and> s' = radio_ready\<lparr>rx_buffer := buf, platform := p,
                      radio_calls := radio_calls radio_ready @
                        [Hw_radio_receive (rx_buffer radio_ready) 128 0]\<rparr>))"
    by (rule conjunct2)
  from this [rule_format, OF h3] have
    "\<not> receive_rejected (Some 5) radio_ready \<longrightarrow>
       (case hw_radio_receive hooks_fail (rx_buffer radio_ready) 128 0 (platform radio_ready) of
        (ok, buf, n, p) \<Rightarrow>
          \<not> ok \<and> Some (1 :: u16) = Some n
        \<and> ?Y = radio_ready\<lparr>rx_buffer := buf, platform := p,
                 radio_calls := radio_calls radio_ready @
                   [Hw_radio_receive (rx_buffer radio_ready) 128 0]\<rparr>)"
    by (elim conjE)
  from this h4 have c3:
    "case hw_radio_receive hooks_fail (rx_buffer radio_ready) 128 0 (platform radio_ready) of
        (ok, buf, n, p) \<Rightarrow>
          \<not> ok \<and> Some (1 :: u16) = Some n
        \<and> ?Y = radio_ready\<lparr>rx_buffer := buf, platform := p,
                 radio_calls := radio_calls radio_ready @
                   [Hw_radio_receive (rx_buffer radio_ready) 128 0]\<rparr>"
    by (rule mp)
  show ?thesis
    using h1 h2 h3 h4 h5 h6 h7 h8 c1 c2 c3 by (intro conjI)
qed

theorem radio_send_spec_witness:
  "send_rejected 129 radio_ready
   \<and> radio_send hooks_ok [1] 129 radio_ready = Some (False, radio_ready)
   \<and> \<not> send_rejected 2 radio_ready \<and> unat (2 :: u16) \<le> length [7, 8, 9 :: u8]
   \<and> radio_send hooks_ok [7, 8, 9] 2 radio_ready =
       Some (True, radio_ready\<lparr>tx_buffer := 7 # 8 # replicate 126 0,
               radio_calls := [Hw_radio_init, Hw_radio_send (7 # 8 # replicate 126 0) 2]\<rparr>)"
proof -
  have a: "send_rejected 129 radio_ready" by (simp add: send_rejected_def)
  have b: "\<not> send_rejected 2 radio_ready" by (simp add: send_rejected_def radio_ready_fields)
  have c: "unat (2 :: u16) \<le> length [7, 8, 9 :: u8]" by simp
  show ?thesis
    using a b c radio_send_spec [of 129 radio_ready hooks_ok "[1]"]
      radio_send_spec [of 2 radio_ready hooks_ok "[7, 8, 9]"]
    by (simp add: radio_ready_fields hooks_ok_def)
qed

theorem radio_receive_spec_witness:
  "receive_rejected None radio_ready
   \<and> radio_receive hooks_fail None radio_ready = (False, None, radio_ready)
   \<and> \<not> receive_rejected (Some 5) radio_ready
   \<and> radio_receive hooks_fail (Some 5) radio_ready =
     (False, Some 1, radio_ready\<lparr>rx_buffer := 255 # replicate 127 0,
                   radio_calls := [Hw_radio_init, Hw_radio_receive (replicate 128 0) 128 0]\<rparr>)"
proof -
  have a: "receive_rejected None radio_ready" by (simp add: receive_rejected_def)
  have b: "\<not> receive_rejected (Some 5) radio_ready"
    by (simp add: receive_rejected_def radio_ready_fields)
  show ?thesis
    using a b radio_receive_spec [of None radio_ready hooks_fail]
      radio_receive_spec [of "Some 5" radio_ready hooks_fail]
    by (simp add: radio_ready_fields hooks_fail_def replicate_128_split)
qed

theorem radio_buffers_disjoint_witness:
  "radio_send hooks_fail [1] 1 radio_ready =
     Some (False, radio_ready\<lparr>tx_buffer := 1 # replicate 127 0,
                   radio_calls := [Hw_radio_init, Hw_radio_send (1 # replicate 127 0) 1]\<rparr>)
   \<and> rx_buffer (radio_ready\<lparr>tx_buffer := 1 # replicate 127 0,
                   radio_calls := [Hw_radio_init, Hw_radio_send (1 # replicate 127 0) 1]\<rparr>)
       = rx_buffer radio_ready
   \<and> tx_buffer (snd (snd (radio_receive hooks_fail (Some 5) radio_ready))) = replicate 128 0"
  using radio_buffers_disjoint [of hooks_fail "[1]" 1 radio_ready "Some 5"] radio_ready_send_one
  by (simp add: radio_ready_fields)

end
